theory Spec2Isabelle
  imports Complex_Main
begin

section \<open>Python values\<close>

text \<open>
  The module \<^verbatim>\<open>mre.py\<close> computes on numpy arrays of float64. Here a float is a
  \<^typ>\<open>real\<close>: rounding, infinities and NaN are outside the model, and a division
  by zero has HOL's value \<open>0\<close> where numpy produces \<open>inf\<close> or \<open>nan\<close> with a warning.
  Every exception the code can raise is a value of \<open>pyerr\<close>; \<open>exit()\<close> is
  \<open>SystemExit\<close>.
\<close>

datatype pyerr =
  AttributeError | IndexError | TypeError | ValueError | RuntimeError
  | UnboundLocalError | SystemExit

text \<open>
  The arrays the module builds and stores are one- or two-dimensional. A two-dimensional
  array is the list of its rows, all of one length.
\<close>

datatype ndarray = A1 "real list" | A2 "real list list"

text \<open>
  What a caller can pass as \<open>data\<close>: an array, a zero-dimensional array, an array of
  three or more dimensions (its contents are never read), or an object with no
  \<^verbatim>\<open>shape\<close> attribute.
\<close>

datatype pydata = Array ndarray | Scalar real | HigherDim nat | NoShape

text \<open>\<^verbatim>\<open>data.shape[1]\<close> of a two-dimensional array.\<close>

definition shape1 :: "real list list \<Rightarrow> nat" where
  "shape1 rows = (case rows of [] \<Rightarrow> 0 | r # _ \<Rightarrow> length r)"

text \<open>Python's \<^verbatim>\<open>len\<close>: the size of the first dimension.\<close>

fun len :: "ndarray \<Rightarrow> nat" where
  "len (A1 xs) = length xs"
| "len (A2 rows) = length rows"

text \<open>
  Slices \<^verbatim>\<open>xs[0:stop]\<close> and \<^verbatim>\<open>xs[start:]\<close> with Python's rule for a negative bound
  (counted from the end) and clipping to the array.
\<close>

definition slice_stop :: "'a list \<Rightarrow> int \<Rightarrow> 'a list" where
  "slice_stop xs stop =
     (let n = int (length xs);
          e = (if stop < 0 then max (n + stop) 0 else min stop n)
      in take (nat e) xs)"

definition slice_start :: "'a list \<Rightarrow> int \<Rightarrow> 'a list" where
  "slice_start xs start =
     (let n = int (length xs);
          s = (if start < 0 then max (n + start) 0 else min start n)
      in drop (nat s) xs)"

text \<open>\<^verbatim>\<open>np.mean\<close> of a one-dimensional array, and along an axis of a matrix.\<close>

definition np_mean :: "real list \<Rightarrow> real" where
  "np_mean xs = sum_list xs / real (length xs)"

definition column :: "real list list \<Rightarrow> nat \<Rightarrow> real list" where
  "column rows k = map (\<lambda>r. r ! k) rows"

text \<open>
  \<^verbatim>\<open>np.mean(m, axis=0)\<close> and \<^verbatim>\<open>np.var(m, axis=0, ddof=1)\<close> of a matrix of
  \<open>ncols\<close> columns: one value per column.
\<close>

definition mean_axis0 :: "nat \<Rightarrow> real list list \<Rightarrow> real list" where
  "mean_axis0 ncols rows = map (\<lambda>k. np_mean (column rows k)) [0..<ncols]"

definition np_var_ddof1 :: "real list \<Rightarrow> real" where
  "np_var_ddof1 xs =
     sum_list (map (\<lambda>x. (x - np_mean xs)\<^sup>2) xs) / (real (length xs) - 1)"

definition var_axis0_ddof1 :: "nat \<Rightarrow> real list list \<Rightarrow> real list" where
  "var_axis0_ddof1 ncols rows = map (\<lambda>k. np_var_ddof1 (column rows k)) [0..<ncols]"

definition zeros2 :: "nat \<Rightarrow> nat \<Rightarrow> real list list" where
  "zeros2 n m = replicate n (replicate m 0)"

section \<open>correlation\_coefficients\<close>

datatype CoefficientResult = CoefficientResult
  (coefficients: ndarray)
  (steps: "int list")
  (offsets: ndarray)
  (stderrs: ndarray)
  (trialactivies: "real list")
  (samples: "CoefficientResult option")

text \<open>
  \<^verbatim>\<open>scipy.stats.linregress(x, y)\<close> is a library function: it is a parameter of the
  model, returning slope, intercept and standard error, or the exception it raises.
\<close>

type_synonym linregress = "real list \<Rightarrow> real list \<Rightarrow> pyerr + (real \<times> real \<times> real)"

definition lr_slope :: "real \<times> real \<times> real \<Rightarrow> real" where
  "lr_slope r = fst r"

definition lr_intercept :: "real \<times> real \<times> real \<Rightarrow> real" where
  "lr_intercept r = fst (snd r)"

definition lr_stderr :: "real \<times> real \<times> real \<Rightarrow> real" where
  "lr_stderr r = snd (snd r)"

text \<open>
  The checks of \<open>data\<close> (lines 362--377): a one-dimensional array becomes one trial,
  three or more dimensions and an object without a shape end in \<open>exit()\<close>. A
  zero-dimensional array passes, and fails later at \<^verbatim>\<open>data.shape[1]\<close>.
\<close>

definition as_trials :: "pydata \<Rightarrow> pyerr + pydata" where
  "as_trials data =
     (case data of
        NoShape \<Rightarrow> Inl SystemExit
      | HigherDim n \<Rightarrow> Inl SystemExit
      | Array (A1 xs) \<Rightarrow> Inr (Array (A2 [xs]))
      | Array (A2 rows) \<Rightarrow> Inr (Array (A2 rows))
      | Scalar x \<Rightarrow> Inr (Scalar x))"

text \<open>
  The two adjustments of the step range (lines 379--386), in the order of the code:
  first \<open>minstep\<close> against the requested \<open>maxstep\<close>, then \<open>maxstep\<close> against the
  data length. Each prints a warning.
\<close>

datatype diag = Warn_minstep | Warn_maxstep int

definition eff_minstep :: "int \<Rightarrow> int \<Rightarrow> int" where
  "eff_minstep minstep maxstep = (if minstep > maxstep then 1 else minstep)"

definition eff_maxstep :: "int \<Rightarrow> int \<Rightarrow> int" where
  "eff_maxstep maxstep datalength =
     (if maxstep > datalength then datalength - 2 else maxstep)"

definition step_diags :: "int \<Rightarrow> int \<Rightarrow> int \<Rightarrow> diag list" where
  "step_diags minstep maxstep datalength =
     (if minstep > maxstep then [Warn_minstep] else []) @
     (if maxstep > datalength then [Warn_maxstep (datalength - 2)] else [])"

text \<open>
  The inner loop of the trial-separated method (lines 410--416): one regression per
  step, of \<^verbatim>\<open>trial[0:-step]\<close> against \<^verbatim>\<open>trial[step:]\<close>. An exception of
  \<open>linregress\<close> leaves the loop.
\<close>

fun regress_steps ::
  "linregress \<Rightarrow> real list \<Rightarrow> int list \<Rightarrow> pyerr + (real \<times> real \<times> real) list" where
  "regress_steps lr trial [] = Inr []"
| "regress_steps lr trial (step # rest) =
     (case lr (slice_stop trial (- step)) (slice_start trial step) of
        Inl e \<Rightarrow> Inl e
      | Inr r \<Rightarrow>
          (case regress_steps lr trial rest of
             Inl e \<Rightarrow> Inl e
           | Inr rs \<Rightarrow> Inr (r # rs)))"

text \<open>The outer loop over the trials (line 405).\<close>

fun regress_trials ::
  "linregress \<Rightarrow> real list list \<Rightarrow> int list \<Rightarrow> pyerr + (real \<times> real \<times> real) list list" where
  "regress_trials lr [] sts = Inr []"
| "regress_trials lr (trial # rest) sts =
     (case regress_steps lr trial sts of
        Inl e \<Rightarrow> Inl e
      | Inr r \<Rightarrow>
          (case regress_trials lr rest sts of
             Inl e \<Rightarrow> Inl e
           | Inr rs \<Rightarrow> Inr (r # rs)))"

text \<open>
  The trial-separated branch (lines 404--437). The loops fill the arrays of \<open>sepres\<close>
  in place; \<open>sepres\<close> with the filled arrays is the \<open>samples\<close> of the result.
\<close>

definition trialseparated ::
  "linregress \<Rightarrow> real list list \<Rightarrow> int list \<Rightarrow> CoefficientResult
     \<Rightarrow> pyerr + CoefficientResult" where
  "trialseparated lr rows sts sepres =
     (case regress_trials lr rows sts of
        Inl e \<Rightarrow> Inl e
      | Inr lrs \<Rightarrow>
          (let numtrials = length rows;
               numsteps = length sts;
               coefs = map (map lr_slope) lrs;
               offs = map (map lr_intercept) lrs;
               errs = map (map lr_stderr) lrs;
               sep = CoefficientResult (A2 coefs) (steps sepres) (A2 offs) (A2 errs)
                       (map np_mean rows) (samples sepres);
               se = (if numtrials = 1 then hd errs
                     else map sqrt (var_axis0_ddof1 numsteps coefs))
           in Inr (CoefficientResult
                     (A1 (mean_axis0 numsteps coefs))
                     sts
                     (A1 (mean_axis0 numsteps offs))
                     (A1 se)
                     (map np_mean rows)
                     (Some sep))))"

text \<open>
  The stationary-mean branch (lines 439--463). For a step, the pairs of all trials are
  pooled, each trial centred by its own mean activity, and regressed once.
\<close>

definition pooled_x :: "real list list \<Rightarrow> real list \<Rightarrow> int \<Rightarrow> real list" where
  "pooled_x rows acts step =
     concat (map (\<lambda>(trial, m). map (\<lambda>v. v - m) (slice_stop trial (- step))) (zip rows acts))"

definition pooled_y :: "real list list \<Rightarrow> real list \<Rightarrow> int \<Rightarrow> real list" where
  "pooled_y rows acts step =
     concat (map (\<lambda>(trial, m). map (\<lambda>v. v - m) (slice_start trial step)) (zip rows acts))"

fun regress_pooled ::
  "linregress \<Rightarrow> real list list \<Rightarrow> real list \<Rightarrow> int list
     \<Rightarrow> pyerr + (real \<times> real \<times> real) list" where
  "regress_pooled lr rows acts [] = Inr []"
| "regress_pooled lr rows acts (step # rest) =
     (case lr (pooled_x rows acts step) (pooled_y rows acts step) of
        Inl e \<Rightarrow> Inl e
      | Inr r \<Rightarrow>
          (case regress_pooled lr rows acts rest of
             Inl e \<Rightarrow> Inl e
           | Inr rs \<Rightarrow> Inr (r # rs)))"

text \<open>
  This branch never writes to the arrays of \<open>sepres\<close>: the result's \<open>samples\<close> is
  \<open>sepres\<close> as it was created, its three arrays all zero.
\<close>

definition stationarymean ::
  "linregress \<Rightarrow> real list list \<Rightarrow> int list \<Rightarrow> CoefficientResult
     \<Rightarrow> pyerr + CoefficientResult" where
  "stationarymean lr rows sts sepres =
     (case regress_pooled lr rows (trialactivies sepres) sts of
        Inl e \<Rightarrow> Inl e
      | Inr lrs \<Rightarrow>
          Inr (CoefficientResult
                 (A1 (map lr_slope lrs))
                 sts
                 (A1 (map lr_intercept lrs))
                 (A1 (map lr_stderr lrs))
                 (map np_mean rows)
                 (Some sepres)))"

text \<open>
  The function (lines 257--465). \<open>bootstrap\<close> is accepted and never read. A method
  string that is neither of the two names takes no branch, and \<^verbatim>\<open>return fulres\<close>
  raises \<open>UnboundLocalError\<close>.
\<close>

definition correlation_coefficients ::
  "linregress \<Rightarrow> pydata \<Rightarrow> int \<Rightarrow> int \<Rightarrow> string \<Rightarrow> bool \<Rightarrow> pyerr + CoefficientResult" where
  "correlation_coefficients lr data minstep maxstep method bootstrap =
     (case as_trials data of
        Inl e \<Rightarrow> Inl e
      | Inr (Array (A2 rows)) \<Rightarrow>
          (let minstep' = eff_minstep minstep maxstep;
               maxstep' = eff_maxstep maxstep (int (shape1 rows));
               sts = [minstep'..maxstep'];
               numsteps = length sts;
               numtrials = length rows;
               sepres = CoefficientResult
                          (A2 (zeros2 numtrials numsteps))
                          sts
                          (A2 (zeros2 numtrials numsteps))
                          (A2 (zeros2 numtrials numsteps))
                          (map np_mean rows)
                          None
           in if method = ''trialseparated'' then trialseparated lr rows sts sepres
              else if method = ''stationarymean'' then stationarymean lr rows sts sepres
              else Inl UnboundLocalError)
      | Inr _ \<Rightarrow> Inl IndexError)"

text \<open>
  A regression used to run the model on concrete inputs: it refuses empty inputs and
  inputs of different lengths, as the library does, and otherwise returns the same fit
  for every input.
\<close>

definition lr_fixed :: linregress where
  "lr_fixed x y =
     (if x = [] \<or> y = [] \<or> length x \<noteq> length y then Inl ValueError
      else Inr (1/2, 1/4, 1/8))"

text \<open>
  A second one, which depends on its input: the line through the first and the last
  point of the sample, with standard error 0.
\<close>

definition lr_ends :: linregress where
  "lr_ends x y =
     (if x = [] \<or> y = [] \<or> length x \<noteq> length y then Inl ValueError
      else (let slope = (last y - hd y) / (last x - hd x)
            in Inr (slope, hd y - slope * hd x, 0)))"

section \<open>The fit functions and their defaults\<close>

text \<open>
  The three built-in models, applied to the array \<open>k\<close> of steps. \<open>Of\<close> is the
  parameter the source calls \<^verbatim>\<open>O\<close>; \<^verbatim>\<open>np.ones_like(k)\<close> contributes the factor 1.
  In Python \<^verbatim>\<open>-(k/tosc)**gam\<close> is the negation of the power.
\<close>

definition f_exponential :: "real list \<Rightarrow> real \<Rightarrow> real \<Rightarrow> real list" where
  "f_exponential k tau A = map (\<lambda>x. A * exp (- x / tau)) k"

definition f_exponential_offset :: "real list \<Rightarrow> real \<Rightarrow> real \<Rightarrow> real \<Rightarrow> real list" where
  "f_exponential_offset k tau A Of = map (\<lambda>x. A * exp (- x / tau) + Of * 1) k"

definition f_complex ::
  "real list \<Rightarrow> real \<Rightarrow> real \<Rightarrow> real \<Rightarrow> real \<Rightarrow> real \<Rightarrow> real \<Rightarrow> real \<Rightarrow> real \<Rightarrow> real
     \<Rightarrow> real list" where
  "f_complex k tau A Of tosc B gam nu tgs C =
     map (\<lambda>x. A * exp (- (x / tau))
             + B * exp (- ((x / tosc) powr gam)) * cos (2 * pi * nu * x)
             + C * exp (- ((x / tgs)\<^sup>2))
             + Of * 1) k"

text \<open>
  What \<open>fitfunc\<close> can be: one of the three functions, another callable (with its
  docstring, if any), or a string. A custom callable takes the steps and the parameter
  list.
\<close>

datatype fitfunc =
  Fn_exponential | Fn_exponential_offset | Fn_complex
  | Fn_custom "string option" "real list \<Rightarrow> real list \<Rightarrow> pyerr + real list"
  | Name string

text \<open>The aliases (lines 586--591). A string that is no alias stays a string.\<close>

definition resolve_fitfunc :: "fitfunc \<Rightarrow> fitfunc" where
  "resolve_fitfunc f =
     (case f of
        Name s \<Rightarrow>
          (if s \<in> set [''f_exponential'', ''exponential''] then Fn_exponential
           else if s \<in> set [''f_exponential_offset'', ''exponentialoffset'']
             then Fn_exponential_offset
           else if s \<in> set [''f_complex'', ''complex''] then Fn_complex
           else Name s)
      | _ \<Rightarrow> f)"

text \<open>
  The call \<^verbatim>\<open>fitfunc(steps, *popt)\<close>: a parameter list of the wrong length is a
  \<open>TypeError\<close>, and so is calling a string.
\<close>

definition call_fitfunc :: "fitfunc \<Rightarrow> real list \<Rightarrow> real list \<Rightarrow> pyerr + real list" where
  "call_fitfunc f k p =
     (case f of
        Fn_exponential \<Rightarrow>
          (if length p = 2 then Inr (f_exponential k (p ! 0) (p ! 1)) else Inl TypeError)
      | Fn_exponential_offset \<Rightarrow>
          (if length p = 3 then Inr (f_exponential_offset k (p ! 0) (p ! 1) (p ! 2))
           else Inl TypeError)
      | Fn_complex \<Rightarrow>
          (if length p = 9
           then Inr (f_complex k (p ! 0) (p ! 1) (p ! 2) (p ! 3) (p ! 4) (p ! 5) (p ! 6)
                       (p ! 7) (p ! 8))
           else Inl TypeError)
      | Fn_custom d g \<Rightarrow> g k p
      | Name s \<Rightarrow> Inl TypeError)"

text \<open>\<^verbatim>\<open>fitfunc.__doc__\<close>, the \<open>fitfunc\<close> field of the result.\<close>

definition fitfunc_doc :: "fitfunc \<Rightarrow> string option" where
  "fitfunc_doc f =
     (case f of
        Fn_exponential \<Rightarrow> Some ''A e^(-k/tau)''
      | Fn_exponential_offset \<Rightarrow> Some ''A e^(-k/tau) + O''
      | Fn_complex \<Rightarrow>
          Some ''A e^(-k/tau) + B e^-(k/tosc)^gam cos(2 pi nu k) + C e^-(k/tgs)^2 + O''
      | Fn_custom d g \<Rightarrow> d
      | Name s \<Rightarrow> None)"

text \<open>Starting parameters: one row, or a grid of rows.\<close>

datatype startpars = Row "real list" | Grid "real list list"

definition default_fitpars :: "fitfunc \<Rightarrow> startpars option" where
  "default_fitpars f =
     (case f of
        Fn_exponential \<Rightarrow> Some (Row [20, 1])
      | Fn_exponential_offset \<Rightarrow> Some (Row [20, 1, 0])
      | Fn_complex \<Rightarrow> Some (Grid
          [[ 10, 0.1  , 0    , 300, 0.03 , 1.0, 1/200, 10, 0.03],
           [400, 0.1  , 0    , 200, 0.03 , 2.5, 1/250, 25, 0.03],
           [ 20, 0.1  , 0.03 , 100, 0.03 , 1.5, 1/50 , 10, 0.03],
           [300, 0.1  , 0.03 , 100, 0.03 , 1.5, 1/50 , 10, 0.03],
           [ 20, 0.03 , 0.01 , 100, 0.03 , 1.0, 1/150,  5, 0.03],
           [ 20, 0.03 , 0.01 , 100, 0.03 , 1.0, 1/150,  5, 0.03],
           [ 10, 0.05 , 0.03 , 300, 0.03 , 1.5, 1/100,  5, 0.1 ],
           [300, 0.05 , 0.03 , 300, 0.03 , 1.5, 1/100, 10, 0.1 ],
           [ 56, 0.029, 0.010, 116, 0.010, 2.0, 1/466,  5, 0.03],
           [ 56, 0.029, 0.010, 116, 0.010, 2.0, 1/466,  5, 0.03],
           [ 56, 0.029, 0.010, 116, 0.010, 2.0, 1/466,  5, 0.03],
           [ 19, 0.078, 0.044, 107, 0.017, 1.0, 1/478,  5, 0.1 ],
           [ 19, 0.078, 0.044, 107, 0.017, 1.0, 1/478,  5, 0.1 ],
           [ 10, 0.029, 0.045, 300, 0.067, 2.0, 1/127, 10, 0.03],
           [210, 0.029, 0.012,  50, 0.03 , 1.0, 1/150, 10, 0.1 ],
           [210, 0.029, 0.012,  50, 0.03 , 1.0, 1/150, 10, 0.1 ],
           [210, 0.029, 0.012,  50, 0.03 , 1.0, 1/150, 10, 0.03],
           [210, 0.029, 0.012,  50, 0.03 , 1.0, 1/150, 10, 0.03],
           [310, 0.029, 0.002,  50, 0.08 , 1.0, 1/34 ,  5, 0.03],
           [310, 0.029, 0.002,  50, 0.08 , 1.0, 1/34 ,  5, 0.03],
           [310, 0.029, 0.002,  50, 0.08 , 1.0, 1/64 ,  5, 0.03],
           [310, 0.029, 0.002,  50, 0.08 , 1.0, 1/64 ,  5, 0.03]])
      | _ \<Rightarrow> None)"

text \<open>
  Bounds in the layout of \<^verbatim>\<open>curve_fit\<close>: the list of lower bounds and the list of
  upper bounds (the transposed table of the source).
\<close>

type_synonym bounds = "real list \<times> real list"

definition default_fitbnds :: "fitfunc \<Rightarrow> bounds option" where
  "default_fitbnds f =
     (case f of
        Fn_complex \<Rightarrow>
          Some ([5, 0, -1, 5, -5, 1/3, 2/1000, 0, -5],
                [5000, 1, 1, 5000, 5, 3, 50/1000, 30, 5])
      | _ \<Rightarrow> None)"

section \<open>correlation\_fit\<close>

record CorrelationResult =
  tau :: real
  mre :: real
  fitfunc :: "string option"
  popt :: "real list"
  pcov :: "real list list"
  ssres :: real

text \<open>
  \<^verbatim>\<open>scipy.optimize.curve_fit(f, xdata, ydata, p0, bounds, sigma)\<close> is a library
  function and a parameter of the model: it returns the optimal parameters and their
  covariance, or the exception it raises (\<open>RuntimeError\<close> when the optimisation fails).
  Bounds \<open>None\<close> stand for the pair \<^verbatim>\<open>[-inf, inf]\<close>; \<open>maxfev\<close> is the constant 100000.
\<close>

type_synonym curve_fit =
  "fitfunc \<Rightarrow> real list \<Rightarrow> ndarray \<Rightarrow> real list \<Rightarrow> bounds option \<Rightarrow> ndarray
     \<Rightarrow> pyerr + (real list \<times> real list list)"

datatype fit_data = FromResult CoefficientResult | FromData pydata

text \<open>
  The detection of the input format (lines 593--635) yields \<open>steps\<close>, \<open>coefficients\<close>
  and \<open>stderrs\<close>, or leaves the three unbound (\<open>None\<close>) when no branch is taken.
  \<open>mnaive\<close> is computed and never used; only the index errors of computing it are kept.

  An exception inside the \<^verbatim>\<open>try\<close> reaches the handler, whose message is built with
  \<^verbatim>\<open>.foramt\<close>, a method strings do not have: the handler raises \<open>AttributeError\<close>.
  In the branch for three or more rows, \<open>stderrs\<close> is a vector of ones, and
  \<^verbatim>\<open>data.shape > 3\<close> compares a tuple with an int, a \<open>TypeError\<close> in Python 3
  (the language of \<^verbatim>\<open>inspect.signature\<close>), so that branch always ends in the handler.
\<close>

definition ones :: "nat \<Rightarrow> real list" where
  "ones n = replicate n 1"

definition arange :: "int \<Rightarrow> int \<Rightarrow> real list" where
  "arange a b = map real_of_int [a..b - 1]"

definition in_try :: "pyerr + 'a \<Rightarrow> pyerr + 'a" where
  "in_try r = (case r of Inl e \<Rightarrow> Inl AttributeError | Inr v \<Rightarrow> Inr v)"

definition parse_rows ::
  "real list list \<Rightarrow> pyerr + (real list \<times> ndarray \<times> ndarray) option" where
  "parse_rows rows0 =
     (let rows = (if length rows0 > shape1 rows0 then transpose rows0 else rows0)
      in if length rows = 1 then
           (let c = rows ! 0
            in if c = [] then Inl IndexError
               else Inr (Some (arange 1 (int (length c)), A1 c, A1 (ones (length c)))))
         else if length rows = 2 then
           (let s = rows ! 0; c = rows ! 1
            in if s = [] then Inl IndexError
               else if s ! 0 = 1 \<and> c = [] then Inl IndexError
               else Inr (Some (s, A1 c, A1 (ones (length c)))))
         else if length rows \<ge> 3 then
           (let s = rows ! 0; c = rows ! 1
            in if s = [] then Inl IndexError
               else if s ! 0 = 1 \<and> c = [] then Inl IndexError
               else Inl TypeError)
         else Inr None)"

definition parse_data :: "fit_data \<Rightarrow> pyerr + (real list \<times> ndarray \<times> ndarray) option" where
  "parse_data data =
     (case data of
        FromResult r \<Rightarrow>
          (if steps r = [] then Inl IndexError
           else if steps r ! 0 = 1 \<and> len (coefficients r) = 0 then Inl IndexError
           else Inr (Some (map real_of_int (steps r), coefficients r, stderrs r)))
      | FromData (Array (A1 c)) \<Rightarrow>
          in_try (if c = [] then Inl IndexError
                  else Inr (Some (arange 1 (int (length c) + 1), A1 c, A1 (ones (length c)))))
      | FromData (Array (A2 rows)) \<Rightarrow> in_try (parse_rows rows)
      | FromData _ \<Rightarrow> Inr None)"

text \<open>
  The grid of starting rows (lines 641 and 645): the defaults of the fit function when
  none is given (\<open>None\<close> for an unknown function, whose \<^verbatim>\<open>.shape\<close> is an
  \<open>AttributeError\<close>), and a single row reshaped to a grid of one row.
\<close>

definition fit_grid :: "fitfunc \<Rightarrow> startpars option \<Rightarrow> pyerr + real list list" where
  "fit_grid f fitpars =
     (case (case fitpars of None \<Rightarrow> default_fitpars f | Some p \<Rightarrow> Some p) of
        None \<Rightarrow> Inl AttributeError
      | Some (Row p) \<Rightarrow> Inr [p]
      | Some (Grid g) \<Rightarrow> Inr g)"

definition fit_bounds :: "fitfunc \<Rightarrow> bounds option \<Rightarrow> bounds option" where
  "fit_bounds f fitbnds = (case fitbnds of None \<Rightarrow> default_fitbnds f | Some b \<Rightarrow> Some b)"

text \<open>
  \<^verbatim>\<open>coefficients - fitfunc(steps, *popt)\<close> with numpy's broadcasting of a
  one-dimensional prediction, and \<^verbatim>\<open>np.sum(residuals**2)\<close>.
\<close>

definition sub_broadcast :: "real list \<Rightarrow> real list \<Rightarrow> pyerr + real list" where
  "sub_broadcast c p =
     (if length c = length p then Inr (map (\<lambda>(x, y). x - y) (zip c p))
      else if length p = 1 then Inr (map (\<lambda>x. x - p ! 0) c)
      else if length c = 1 then Inr (map (\<lambda>y. c ! 0 - y) p)
      else Inl ValueError)"

fun sub_rows :: "real list list \<Rightarrow> real list \<Rightarrow> pyerr + real list list" where
  "sub_rows [] p = Inr []"
| "sub_rows (c # cs) p =
     (case sub_broadcast c p of
        Inl e \<Rightarrow> Inl e
      | Inr r \<Rightarrow> (case sub_rows cs p of Inl e \<Rightarrow> Inl e | Inr rs \<Rightarrow> Inr (r # rs)))"

definition np_sub :: "ndarray \<Rightarrow> real list \<Rightarrow> pyerr + ndarray" where
  "np_sub a p =
     (case a of
        A1 c \<Rightarrow> (case sub_broadcast c p of Inl e \<Rightarrow> Inl e | Inr r \<Rightarrow> Inr (A1 r))
      | A2 cs \<Rightarrow> (case sub_rows cs p of Inl e \<Rightarrow> Inl e | Inr rs \<Rightarrow> Inr (A2 rs)))"

definition sum_squares :: "ndarray \<Rightarrow> real" where
  "sum_squares a =
     (case a of
        A1 r \<Rightarrow> sum_list (map (\<lambda>x. x\<^sup>2) r)
      | A2 rs \<Rightarrow> sum_list (map (\<lambda>r. sum_list (map (\<lambda>x. x\<^sup>2) r)) rs))"

text \<open>
  One pass of the loop body up to \<open>ssres\<close> (lines 659--683), for the row \<open>pars\<close>:
  \<^verbatim>\<open>inspect.signature\<close> of a string is a \<open>TypeError\<close>; then the fit, the residuals
  and their sum of squares. Nothing catches an exception here.
\<close>

definition fit_row ::
  "curve_fit \<Rightarrow> fitfunc \<Rightarrow> real list \<Rightarrow> ndarray \<Rightarrow> ndarray \<Rightarrow> bounds option \<Rightarrow> real list
     \<Rightarrow> pyerr + (real \<times> real list \<times> real list list)" where
  "fit_row cf f sts coefs errs bnds pars =
     (case f of
        Name s \<Rightarrow> Inl TypeError
      | _ \<Rightarrow>
        (case cf f sts coefs pars bnds errs of
           Inl e \<Rightarrow> Inl e
         | Inr (po, pc) \<Rightarrow>
             (case call_fitfunc f sts po of
                Inl e \<Rightarrow> Inl e
              | Inr pred \<Rightarrow>
                  (case np_sub coefs pred of
                     Inl e \<Rightarrow> Inl e
                   | Inr residuals \<Rightarrow> Inr (sum_squares residuals, po, pc)))))"

text \<open>
  The champion so far: \<open>None\<close> is the state before any row has won, \<open>ssresmin\<close> at
  \<^verbatim>\<open>np.inf\<close> with \<open>fulpopt\<close> and \<open>fulpcov\<close> unbound (every real is below infinity);
  \<open>Some (ssresmin, fulpopt, fulpcov)\<close> afterwards. The test is the strict
  \<^verbatim>\<open>ssres < ssresmin\<close> of line 684.
\<close>

type_synonym champion = "(real \<times> real list \<times> real list list) option"

definition keep_best :: "champion \<Rightarrow> real \<times> real list \<times> real list list \<Rightarrow> champion" where
  "keep_best best cand =
     (case best of
        None \<Rightarrow> Some cand
      | Some b \<Rightarrow> (if fst cand < fst b then Some cand else Some b))"

fun fit_loop ::
  "curve_fit \<Rightarrow> fitfunc \<Rightarrow> real list \<Rightarrow> ndarray \<Rightarrow> ndarray \<Rightarrow> bounds option
     \<Rightarrow> real list list \<Rightarrow> champion \<Rightarrow> pyerr + champion" where
  "fit_loop cf f sts coefs errs bnds [] best = Inr best"
| "fit_loop cf f sts coefs errs bnds (pars # rest) best =
     (case fit_row cf f sts coefs errs bnds pars of
        Inl e \<Rightarrow> Inl e
      | Inr cand \<Rightarrow> fit_loop cf f sts coefs errs bnds rest (keep_best best cand))"

text \<open>
  The function (lines 552--701). With the three variables unbound the first pass of
  the loop raises \<open>UnboundLocalError\<close> at the call of \<^verbatim>\<open>curve_fit\<close> (after the
  \<open>TypeError\<close> of \<^verbatim>\<open>inspect.signature\<close> for a string); with no row at all, or no
  champion, the read of \<open>fulpopt\<close> does. \<^verbatim>\<open>fulpopt[0]\<close> of an empty vector is an \<open>IndexError\<close>.
\<close>

definition correlation_fit ::
  "curve_fit \<Rightarrow> fit_data \<Rightarrow> fitfunc \<Rightarrow> startpars option \<Rightarrow> bounds option
     \<Rightarrow> pyerr + CorrelationResult" where
  "correlation_fit cf data fitfunc0 fitpars fitbnds =
     (let f = resolve_fitfunc fitfunc0 in
      case parse_data data of
        Inl e \<Rightarrow> Inl e
      | Inr parsed \<Rightarrow>
          (case fit_grid f fitpars of
             Inl e \<Rightarrow> Inl e
           | Inr rows \<Rightarrow>
               (case (case parsed of
                        None \<Rightarrow>
                          (if rows = [] then Inr None
                           else (case f of
                                   Name s \<Rightarrow> Inl TypeError
                                 | _ \<Rightarrow> Inl UnboundLocalError))
                      | Some (sts, coefs, errs) \<Rightarrow>
                          fit_loop cf f sts coefs errs (fit_bounds f fitbnds) rows None) of
                  Inl e \<Rightarrow> Inl e
                | Inr None \<Rightarrow> Inl UnboundLocalError
                | Inr (Some (ssresmin, fulpopt, fulpcov)) \<Rightarrow>
                    (if fulpopt = [] then Inl IndexError
                     else Inr \<lparr> tau = fulpopt ! 0,
                                mre = exp (- 1 / (fulpopt ! 0)),
                                fitfunc = fitfunc_doc f,
                                popt = fulpopt,
                                pcov = fulpcov,
                                ssres = ssresmin \<rparr>))))"

text \<open>
  Optimisers used to run the model on concrete inputs: one returns the starting row as
  the optimum, the other fails on the starting row \<open>[0, 0]\<close> and otherwise does the same.
\<close>

definition cf_start :: curve_fit where
  "cf_start f x y p0 b s = Inr (p0, [])"

definition cf_fails_at_zero :: curve_fit where
  "cf_fails_at_zero f x y p0 b s = (if p0 = [0, 0] then Inl RuntimeError else Inr (p0, []))"

text \<open>
  A custom fit function for such runs, \<^verbatim>\<open>def line(k, a): return a*k\<close>.
\<close>

definition line :: "real list \<Rightarrow> real list \<Rightarrow> pyerr + real list" where
  "line k p = (if length p = 1 then Inr (map (\<lambda>x. p ! 0 * x) k) else Inl TypeError)"

section \<open>Properties of correlation\_coefficients\<close>

lemmas cc_eval = correlation_coefficients_def as_trials_def eff_minstep_def eff_maxstep_def
  shape1_def trialseparated_def stationarymean_def zeros2_def lr_fixed_def slice_stop_def
  slice_start_def np_mean_def mean_axis0_def var_axis0_ddof1_def np_var_ddof1_def column_def
  lr_slope_def lr_intercept_def lr_stderr_def pooled_x_def pooled_y_def Let_def upto.simps

lemma regress_steps_length:
  "regress_steps lr trial sts = Inr rs \<Longrightarrow> length rs = length sts"
  by (induction sts arbitrary: rs) (auto split: sum.splits)

lemma regress_trials_length:
  "regress_trials lr rows sts = Inr lrs \<Longrightarrow>
     length lrs = length rows \<and> (\<forall>r\<in>set lrs. length r = length sts)"
  by (induction rows arbitrary: lrs) (auto split: sum.splits dest: regress_steps_length)

lemma regress_pooled_length:
  "regress_pooled lr rows acts sts = Inr rs \<Longrightarrow> length rs = length sts"
  by (induction sts arbitrary: rs) (auto split: sum.splits)

text \<open>The body of the function once the data is a matrix of trials.\<close>

lemma cc_matrix:
  "as_trials data = Inr (Array (A2 rows)) \<Longrightarrow>
   correlation_coefficients lr data minstep maxstep method bootstrap =
     (let sts = [eff_minstep minstep maxstep..eff_maxstep maxstep (int (shape1 rows))];
          sepres = CoefficientResult
                     (A2 (zeros2 (length rows) (length sts)))
                     sts
                     (A2 (zeros2 (length rows) (length sts)))
                     (A2 (zeros2 (length rows) (length sts)))
                     (map np_mean rows)
                     None
      in if method = ''trialseparated'' then trialseparated lr rows sts sepres
         else if method = ''stationarymean'' then stationarymean lr rows sts sepres
         else Inl UnboundLocalError)"
  by (simp add: correlation_coefficients_def Let_def)

lemma cc_Inr_matrix:
  "correlation_coefficients lr data minstep maxstep method bootstrap = Inr res \<Longrightarrow>
   \<exists>rows. as_trials data = Inr (Array (A2 rows))"
  by (auto simp: correlation_coefficients_def split: sum.splits pydata.splits ndarray.splits)

lemma trialseparated_shape:
  assumes "trialseparated lr rows sts (CoefficientResult c0 sts o0 e0 acts None) = Inr res"
  shows "\<exists>lrs. regress_trials lr rows sts = Inr lrs
     \<and> coefficients res = A1 (mean_axis0 (length sts) (map (map lr_slope) lrs))
     \<and> offsets res = A1 (mean_axis0 (length sts) (map (map lr_intercept) lrs))
     \<and> stderrs res = A1 (if length rows = 1 then hd (map (map lr_stderr) lrs)
                          else map sqrt (var_axis0_ddof1 (length sts) (map (map lr_slope) lrs)))
     \<and> steps res = sts
     \<and> trialactivies res = map np_mean rows
     \<and> samples res = Some (CoefficientResult (A2 (map (map lr_slope) lrs)) sts
                             (A2 (map (map lr_intercept) lrs)) (A2 (map (map lr_stderr) lrs))
                             (map np_mean rows) None)"
  using assms by (auto simp: trialseparated_def Let_def split: sum.splits)

lemma stationarymean_shape:
  assumes "stationarymean lr rows sts sepres = Inr res"
  shows "\<exists>lrs. regress_pooled lr rows (trialactivies sepres) sts = Inr lrs
     \<and> coefficients res = A1 (map lr_slope lrs)
     \<and> offsets res = A1 (map lr_intercept lrs)
     \<and> stderrs res = A1 (map lr_stderr lrs)
     \<and> steps res = sts
     \<and> trialactivies res = map np_mean rows
     \<and> samples res = Some sepres"
  using assms by (auto simp: stationarymean_def split: sum.splits)

lemma cc_steps:
  assumes "correlation_coefficients lr data minstep maxstep method bootstrap = Inr res"
    and "as_trials data = Inr (Array (A2 rows))"
  shows "steps res = [eff_minstep minstep maxstep..eff_maxstep maxstep (int (shape1 rows))]"
  using assms
  by (auto simp: cc_matrix Let_def split: if_splits
      dest: trialseparated_shape stationarymean_shape)

lemma lr_fixed_accepts:
  "\<forall>x y. x \<noteq> [] \<and> length x = length y \<longrightarrow> (\<exists>r. lr_fixed x y = Inr r)"
proof (intro allI impI)
  fix x y :: "real list"
  assume "x \<noteq> [] \<and> length x = length y"
  then have "lr_fixed x y = Inr (1/2, 1/4, 1/8)" by (auto simp: lr_fixed_def)
  then show "\<exists>r. lr_fixed x y = Inr r" ..
qed

subsection \<open>When the regressions succeed\<close>

lemma slices_lengths:
  assumes "1 \<le> step" and "step < int (length trial)"
  shows "length (slice_stop trial (- step)) = length trial - nat step"
    and "length (slice_start trial step) = length trial - nat step"
  using assms by (auto simp: slice_stop_def slice_start_def Let_def)

lemma regress_steps_ok:
  assumes acc: "\<forall>x y. x \<noteq> [] \<and> length x = length y \<longrightarrow> (\<exists>r. lr x y = Inr r)"
    and "\<forall>step\<in>set sts. 1 \<le> step \<and> step < int (length trial)"
  shows "\<exists>rs. regress_steps lr trial sts = Inr rs"
  using assms(2)
proof (induction sts)
  case Nil
  then show ?case by simp
next
  case (Cons step rest)
  then have b: "1 \<le> step" "step < int (length trial)" by simp_all
  have "length (slice_stop trial (- step)) = length (slice_start trial step)"
    and "slice_stop trial (- step) \<noteq> []"
    using slices_lengths [OF b] b by auto
  with acc obtain r where "lr (slice_stop trial (- step)) (slice_start trial step) = Inr r"
    by blast
  moreover from Cons obtain rs where "regress_steps lr trial rest = Inr rs" by auto
  ultimately show ?case by simp
qed

lemma regress_trials_ok:
  assumes acc: "\<forall>x y. x \<noteq> [] \<and> length x = length y \<longrightarrow> (\<exists>r. lr x y = Inr r)"
    and "\<forall>trial\<in>set rows. \<forall>step\<in>set sts. 1 \<le> step \<and> step < int (length trial)"
  shows "\<exists>lrs. regress_trials lr rows sts = Inr lrs"
  using assms(2)
proof (induction rows)
  case Nil
  then show ?case by simp
next
  case (Cons trial rest)
  then have "\<forall>step\<in>set sts. 1 \<le> step \<and> step < int (length trial)" by simp
  from regress_steps_ok [OF acc this] obtain r where "regress_steps lr trial sts = Inr r" ..
  moreover from Cons obtain rs where "regress_trials lr rest sts = Inr rs" by auto
  ultimately show ?case by simp
qed

lemma length_concat_const:
  "\<forall>x\<in>set xs. length (f x) = c \<Longrightarrow> length (concat (map f xs)) = length xs * c"
  by (induction xs) auto

lemma pooled_lengths:
  assumes "1 \<le> step" and "\<forall>trial\<in>set rows. length trial = n" and "step < int n"
    and "length acts = length rows"
  shows "length (pooled_x rows acts step) = length rows * (n - nat step)"
    and "length (pooled_y rows acts step) = length rows * (n - nat step)"
proof -
  have "\<forall>p\<in>set (zip rows acts). length (fst p) = n"
    using assms(2) by (auto dest: set_zip_leftD)
  then have a: "\<forall>p\<in>set (zip rows acts).
      length ((\<lambda>(trial, m). map (\<lambda>v. v - m) (slice_stop trial (- step))) p) = n - nat step"
    and b: "\<forall>p\<in>set (zip rows acts).
      length ((\<lambda>(trial, m). map (\<lambda>v. v - m) (slice_start trial step)) p) = n - nat step"
    using assms(1,3) by (auto simp: slices_lengths)
  show "length (pooled_x rows acts step) = length rows * (n - nat step)"
    unfolding pooled_x_def using length_concat_const [OF a] assms(4) by simp
  show "length (pooled_y rows acts step) = length rows * (n - nat step)"
    unfolding pooled_y_def using length_concat_const [OF b] assms(4) by simp
qed

lemma regress_pooled_ok:
  assumes acc: "\<forall>x y. x \<noteq> [] \<and> length x = length y \<longrightarrow> (\<exists>r. lr x y = Inr r)"
    and rows: "rows \<noteq> []" "\<forall>trial\<in>set rows. length trial = n" "length acts = length rows"
    and "\<forall>step\<in>set sts. 1 \<le> step \<and> step < int n"
  shows "\<exists>rs. regress_pooled lr rows acts sts = Inr rs"
  using assms(5)
proof (induction sts)
  case Nil
  then show ?case by simp
next
  case (Cons step rest)
  then have b: "1 \<le> step" "step < int n" by simp_all
  have l: "length (pooled_x rows acts step) = length rows * (n - nat step)"
    "length (pooled_y rows acts step) = length rows * (n - nat step)"
    using pooled_lengths [OF b(1) rows(2) b(2) rows(3)] by simp_all
  have "0 < length rows * (n - nat step)" using rows(1) b by simp
  with l have "pooled_x rows acts step \<noteq> []"
    and "length (pooled_x rows acts step) = length (pooled_y rows acts step)" by auto
  with acc obtain r where "lr (pooled_x rows acts step) (pooled_y rows acts step) = Inr r"
    by blast
  moreover from Cons obtain rs where "regress_pooled lr rows acts rest = Inr rs" by auto
  ultimately show ?case by simp
qed

subsection \<open>The clamp of maxstep\<close>

text \<open>
  C3, as stated: whenever the requested \<open>maxstep\<close> exceeds \<open>datalength - 2\<close>, the
  effective \<open>maxstep\<close> is \<open>datalength - 2\<close>. The code compares \<open>maxstep\<close> with
  \<open>datalength\<close> itself: for one trial of 5 points and \<open>maxstep = 4\<close> (which exceeds
  \<open>5 - 2\<close>) nothing is reduced, and the steps of the result run up to 4.
\<close>

theorem maxstep_clamp_counterexample:
  "4 > int (shape1 [[1, 2, 3, 4, 5]]) - 2
   \<and> eff_maxstep 4 (int (shape1 [[1, 2, 3, 4, 5]])) = 4
   \<and> map_sum id steps
        (correlation_coefficients lr_fixed (Array (A2 [[1, 2, 3, 4, 5]])) 1 4
           ''trialseparated'' True) = Inr [1, 2, 3, 4]"
  by (simp add: cc_eval)

text \<open>
  C3, amended: the steps of every result run from the effective \<open>minstep\<close> to the
  effective \<open>maxstep\<close>; a requested \<open>maxstep\<close> above \<open>datalength\<close> becomes
  \<open>datalength - 2\<close>, and a requested \<open>maxstep\<close> of at most \<open>datalength\<close> is used as it
  is.
\<close>

theorem maxstep_clamp:
  assumes "correlation_coefficients lr data minstep maxstep method bootstrap = Inr res"
    and "as_trials data = Inr (Array (A2 rows))"
  shows "steps res = [eff_minstep minstep maxstep..eff_maxstep maxstep (int (shape1 rows))]
       \<and> (maxstep > int (shape1 rows) \<longrightarrow>
            eff_maxstep maxstep (int (shape1 rows)) = int (shape1 rows) - 2)
       \<and> (maxstep \<le> int (shape1 rows) \<longrightarrow>
            eff_maxstep maxstep (int (shape1 rows)) = maxstep)"
  using cc_steps [OF assms] by (simp add: eff_maxstep_def)

theorem maxstep_clamp_witness:
  "steps (CoefficientResult (A1 [1/2, 1/2, 1/2]) [1, 2, 3] (A1 [1/4, 1/4, 1/4])
            (A1 [1/8, 1/8, 1/8]) [3]
            (Some (CoefficientResult (A2 [[1/2, 1/2, 1/2]]) [1, 2, 3] (A2 [[1/4, 1/4, 1/4]])
                     (A2 [[1/8, 1/8, 1/8]]) [3] None)))
     = [eff_minstep 1 1000..eff_maxstep 1000 (int (shape1 [[1, 2, 3, 4, 5]]))]
   \<and> eff_maxstep 1000 (int (shape1 [[1, 2, 3, 4, 5]])) = 3"
proof -
  have r: "correlation_coefficients lr_fixed (Array (A2 [[1, 2, 3, 4, 5]])) 1 1000
             ''trialseparated'' True
           = Inr (CoefficientResult (A1 [1/2, 1/2, 1/2]) [1, 2, 3] (A1 [1/4, 1/4, 1/4])
                    (A1 [1/8, 1/8, 1/8]) [3]
                    (Some (CoefficientResult (A2 [[1/2, 1/2, 1/2]]) [1, 2, 3]
                             (A2 [[1/4, 1/4, 1/4]]) (A2 [[1/8, 1/8, 1/8]]) [3] None)))"
    by (simp add: cc_eval)
  have a: "as_trials (Array (A2 [[1, 2, 3, 4, 5]])) = Inr (Array (A2 [[1, 2, 3, 4, 5]]))"
    by (simp add: as_trials_def)
  have s: "int (shape1 [[1, 2, 3, 4, 5]]) = 5" by (simp add: shape1_def)
  from maxstep_clamp [OF r a] show ?thesis by (simp add: s)
qed

subsection \<open>The reset of minstep\<close>

text \<open>
  C9, as stated: \<open>minstep\<close> is reset to 1 also when it exceeds only the clamped
  \<open>maxstep\<close>. The code tests \<open>minstep\<close> before it clamps \<open>maxstep\<close>: for one trial of 6
  points, \<open>minstep = 5\<close> and \<open>maxstep = 1000\<close>, \<open>maxstep\<close> becomes 4, \<open>minstep\<close> stays 5,
  the only warning is the one of the clamp, and the result has no step at all.
\<close>

theorem minstep_reset_counterexample:
  "5 > eff_maxstep 1000 (int (shape1 [[1, 2, 3, 4, 5, 6]]))
   \<and> eff_minstep 5 1000 = 5
   \<and> step_diags 5 1000 (int (shape1 [[1, 2, 3, 4, 5, 6]])) = [Warn_maxstep 4]
   \<and> map_sum id steps
        (correlation_coefficients lr_fixed (Array (A2 [[1, 2, 3, 4, 5, 6]])) 5 1000
           ''trialseparated'' True) = Inr []"
  by (simp add: cc_eval step_diags_def)

text \<open>
  C9, amended: when the requested \<open>minstep\<close> exceeds the requested \<open>maxstep\<close>,
  \<open>minstep\<close> is reset to 1 with a warning and nothing is raised there. The call then
  returns a result whose steps start at 1, for a known method, a non-empty rectangular
  array of trials, a \<open>maxstep\<close> other than the data length, and a regression that
  accepts non-empty samples of equal length.
\<close>

theorem minstep_reset:
  assumes gt: "minstep > maxstep"
    and data: "as_trials data = Inr (Array (A2 rows))"
    and rows: "rows \<noteq> []" "\<forall>trial\<in>set rows. length trial = shape1 rows"
    and ms: "maxstep \<noteq> int (shape1 rows)"
    and meth: "method = ''trialseparated'' \<or> method = ''stationarymean''"
    and acc: "\<forall>x y. x \<noteq> [] \<and> length x = length y \<longrightarrow> (\<exists>r. lr x y = Inr r)"
  shows "eff_minstep minstep maxstep = 1
       \<and> Warn_minstep \<in> set (step_diags minstep maxstep (int (shape1 rows)))
       \<and> (\<exists>res. correlation_coefficients lr data minstep maxstep method bootstrap = Inr res
              \<and> steps res = [1..eff_maxstep maxstep (int (shape1 rows))])"
proof -
  let ?n = "shape1 rows"
  let ?sts = "[1..eff_maxstep maxstep (int ?n)]"
  have m1: "eff_minstep minstep maxstep = 1" using gt by (simp add: eff_minstep_def)
  have w: "Warn_minstep \<in> set (step_diags minstep maxstep (int ?n))"
    using gt by (simp add: step_diags_def)
  have bound: "\<forall>step\<in>set ?sts. 1 \<le> step \<and> step < int ?n"
    using ms by (auto simp: eff_maxstep_def split: if_splits)
  have "\<exists>res. correlation_coefficients lr data minstep maxstep method bootstrap = Inr res"
  proof (cases "method = ''trialseparated''")
    case True
    have "\<forall>trial\<in>set rows. \<forall>step\<in>set ?sts. 1 \<le> step \<and> step < int (length trial)"
      using bound rows(2) by simp
    from regress_trials_ok [OF acc this]
    obtain lrs where "regress_trials lr rows ?sts = Inr lrs" ..
    then show ?thesis using True
      by (simp add: cc_matrix [OF data] m1 Let_def trialseparated_def)
  next
    case False
    with meth have sm: "method = ''stationarymean''" by simp
    have "length (map np_mean rows) = length rows" by simp
    from regress_pooled_ok [OF acc rows(1) rows(2) this bound]
    obtain rs where "regress_pooled lr rows (map np_mean rows) ?sts = Inr rs" ..
    then show ?thesis using sm
      by (simp add: cc_matrix [OF data] m1 Let_def stationarymean_def)
  qed
  then obtain res where
    r: "correlation_coefficients lr data minstep maxstep method bootstrap = Inr res" ..
  from cc_steps [OF r data] m1 have "steps res = ?sts" by simp
  with r m1 w show ?thesis by blast
qed

theorem minstep_reset_witness:
  "eff_minstep 5 2 = 1
   \<and> Warn_minstep \<in> set (step_diags 5 2 (int (shape1 [[1, 2, 3, 4, 5]])))
   \<and> (\<exists>res. correlation_coefficients lr_fixed (Array (A2 [[1, 2, 3, 4, 5]])) 5 2
               ''stationarymean'' True = Inr res
            \<and> steps res = [1..eff_maxstep 2 (int (shape1 [[1, 2, 3, 4, 5]]))])"
proof -
  have gt: "(5::int) > 2" by simp
  have data: "as_trials (Array (A2 [[1, 2, 3, 4, 5]])) = Inr (Array (A2 [[1, 2, 3, 4, 5]]))"
    by (simp add: as_trials_def)
  have rows: "[[1, 2, 3, 4, 5::real]] \<noteq> []"
    "\<forall>trial\<in>set [[1, 2, 3, 4, 5::real]]. length trial = shape1 [[1, 2, 3, 4, 5::real]]"
    by (simp_all add: shape1_def)
  have ms: "(2::int) \<noteq> int (shape1 [[1, 2, 3, 4, 5::real]])" by (simp add: shape1_def)
  have meth: "''stationarymean'' = ''trialseparated'' \<or> ''stationarymean'' = ''stationarymean''"
    by simp
  from minstep_reset [OF gt data rows ms meth lr_fixed_accepts] show ?thesis .
qed

subsection \<open>An unknown method\<close>

text \<open>
  C10: with a method string other than \<open>'trialseparated'\<close> and \<open>'stationarymean'\<close> the
  call never returns a result. When the argument checks pass it ends in
  \<open>UnboundLocalError\<close>, the exception of reading the unbound \<open>fulres\<close>: no default
  method is used.
\<close>

theorem unknown_method_unbound:
  assumes "method \<noteq> ''trialseparated''" and "method \<noteq> ''stationarymean''"
  shows "(\<forall>res. correlation_coefficients lr data minstep maxstep method bootstrap \<noteq> Inr res)
       \<and> (\<forall>rows. as_trials data = Inr (Array (A2 rows)) \<longrightarrow>
            correlation_coefficients lr data minstep maxstep method bootstrap
              = Inl UnboundLocalError)"
  using assms
  by (auto simp: correlation_coefficients_def Let_def
      split: sum.splits pydata.splits ndarray.splits)

theorem unknown_method_unbound_witness:
  "correlation_coefficients lr_fixed (Array (A2 [[1, 2, 3, 4, 5]])) 1 2 ''pooled'' True
     = Inl UnboundLocalError"
proof -
  have m: "''pooled'' \<noteq> ''trialseparated''" "''pooled'' \<noteq> ''stationarymean''" by simp_all
  have a: "as_trials (Array (A2 [[1, 2, 3, 4, 5]])) = Inr (Array (A2 [[1, 2, 3, 4, 5]]))"
    by (simp add: as_trials_def)
  from unknown_method_unbound [OF m, of lr_fixed "Array (A2 [[1, 2, 3, 4, 5]])" 1 2 True] a
  show ?thesis by blast
qed

subsection \<open>The lengths of the result's arrays\<close>

text \<open>
  C8, as stated: in the nested \<open>samples\<close> too, \<open>len(coefficients)\<close> equals
  \<open>len(steps)\<close>. The arrays of \<open>samples\<close> are matrices with one row per trial, and
  \<open>len\<close> counts the rows: for one trial and two steps, \<open>len(samples.coefficients)\<close> is
  1 and \<open>len(samples.steps)\<close> is 2.
\<close>

theorem samples_len_counterexample:
  "correlation_coefficients lr_fixed (Array (A2 [[1, 2, 3, 4, 5]])) 1 2 ''trialseparated'' True
     = Inr (CoefficientResult (A1 [1/2, 1/2]) [1, 2] (A1 [1/4, 1/4]) (A1 [1/8, 1/8]) [3]
              (Some (CoefficientResult (A2 [[1/2, 1/2]]) [1, 2] (A2 [[1/4, 1/4]])
                       (A2 [[1/8, 1/8]]) [3] None)))
   \<and> len (A2 [[1/2, 1/2]]) = 1 \<and> length [1, 2 :: int] = 2"
  by (simp add: cc_eval)

text \<open>
  C8, amended: in every result, \<open>coefficients\<close>, \<open>offsets\<close> and \<open>stderrs\<close> have the
  length of \<open>steps\<close>. The nested \<open>samples\<close> has the same steps and no samples of its
  own; its three arrays are matrices with one row per trial, each row of the length of
  \<open>steps\<close>.
\<close>

theorem result_lengths:
  assumes "correlation_coefficients lr data minstep maxstep method bootstrap = Inr res"
  shows "len (coefficients res) = length (steps res)
       \<and> len (offsets res) = length (steps res)
       \<and> len (stderrs res) = length (steps res)
       \<and> (\<exists>s C F E. samples res = Some s \<and> samples s = None \<and> steps s = steps res
             \<and> coefficients s = A2 C \<and> offsets s = A2 F \<and> stderrs s = A2 E
             \<and> len (coefficients s) = length (trialactivies res)
             \<and> len (offsets s) = length (trialactivies res)
             \<and> len (stderrs s) = length (trialactivies res)
             \<and> (\<forall>r \<in> set C \<union> set F \<union> set E. length r = length (steps res)))"
proof -
  from cc_Inr_matrix [OF assms] obtain rows where
    data: "as_trials data = Inr (Array (A2 rows))" ..
  let ?sts = "[eff_minstep minstep maxstep..eff_maxstep maxstep (int (shape1 rows))]"
  let ?z = "A2 (zeros2 (length rows) (length ?sts))"
  let ?sep = "CoefficientResult ?z ?sts ?z ?z (map np_mean rows) None"
  from assms have m: "method = ''trialseparated'' \<or> method = ''stationarymean''"
    by (auto simp: cc_matrix [OF data] Let_def split: if_splits)
  show ?thesis
  proof (cases "method = ''trialseparated''")
    case True
    with assms have "trialseparated lr rows ?sts ?sep = Inr res"
      by (simp add: cc_matrix [OF data] Let_def)
    from trialseparated_shape [OF this] obtain lrs where
      l: "regress_trials lr rows ?sts = Inr lrs"
      and f: "coefficients res = A1 (mean_axis0 (length ?sts) (map (map lr_slope) lrs))"
        "offsets res = A1 (mean_axis0 (length ?sts) (map (map lr_intercept) lrs))"
        "stderrs res = A1 (if length rows = 1 then hd (map (map lr_stderr) lrs)
                          else map sqrt (var_axis0_ddof1 (length ?sts) (map (map lr_slope) lrs)))"
        "steps res = ?sts" "trialactivies res = map np_mean rows"
        "samples res = Some (CoefficientResult (A2 (map (map lr_slope) lrs)) ?sts
                             (A2 (map (map lr_intercept) lrs)) (A2 (map (map lr_stderr) lrs))
                             (map np_mean rows) None)"
      by blast
    from regress_trials_length [OF l] have
      n: "length lrs = length rows" and c: "\<forall>r\<in>set lrs. length r = length ?sts" by simp_all
    have h: "length rows = 1 \<Longrightarrow> length (hd (map (map lr_stderr) lrs)) = length ?sts"
      using n c by (cases lrs) auto
    have "len (stderrs res) = length (steps res)"
      using f h by (simp add: var_axis0_ddof1_def)
    then show ?thesis using f n c by (auto simp: mean_axis0_def)
  next
    case False
    with m assms have "stationarymean lr rows ?sts ?sep = Inr res"
      by (simp add: cc_matrix [OF data] Let_def)
    from stationarymean_shape [OF this] obtain lrs where
      l: "regress_pooled lr rows (map np_mean rows) ?sts = Inr lrs"
      and f: "coefficients res = A1 (map lr_slope lrs)" "offsets res = A1 (map lr_intercept lrs)"
        "stderrs res = A1 (map lr_stderr lrs)" "steps res = ?sts"
        "trialactivies res = map np_mean rows" "samples res = Some ?sep"
      by auto
    from regress_pooled_length [OF l] f show ?thesis by (auto simp: zeros2_def)
  qed
qed

theorem result_lengths_witness:
  "len (A1 [1/2, 1/2]) = length [1, 2 :: int]
   \<and> len (A2 [[1/2, 1/2]]) = length [3 :: real]
   \<and> length [1/2, 1/2 :: real] = length [1, 2 :: int]"
proof -
  have r: "correlation_coefficients lr_fixed (Array (A2 [[1, 2, 3, 4, 5]])) 1 2
             ''trialseparated'' True
     = Inr (CoefficientResult (A1 [1/2, 1/2]) [1, 2] (A1 [1/4, 1/4]) (A1 [1/8, 1/8]) [3]
              (Some (CoefficientResult (A2 [[1/2, 1/2]]) [1, 2] (A2 [[1/4, 1/4]])
                       (A2 [[1/8, 1/8]]) [3] None)))"
    by (simp add: cc_eval)
  from result_lengths [OF r] show ?thesis by simp
qed

subsection \<open>The trial-separated mean\<close>

lemma sum_list_column: "sum_list (column C k) = (\<Sum>t<length C. C ! t ! k)"
  by (simp add: column_def sum_list_sum_nth atLeast0LessThan)

lemma mean_axis0_nth:
  "k < n \<Longrightarrow> mean_axis0 n C ! k = (\<Sum>t<length C. C ! t ! k) / real (length C)"
proof -
  assume k: "k < n"
  have "length (column C k) = length C" by (simp add: column_def)
  with k show ?thesis by (simp add: mean_axis0_def np_mean_def sum_list_column)
qed

text \<open>
  C2: under the trial-separated method, the result's \<open>coefficients\<close> and \<open>offsets\<close>
  are, step by step, the arithmetic mean over the trials of the matching column of
  \<open>samples.coefficients\<close> and \<open>samples.offsets\<close>, which have one row per trial.
\<close>

theorem trialseparated_mean:
  assumes "correlation_coefficients lr data minstep maxstep ''trialseparated'' bootstrap
             = Inr res"
  shows "\<exists>s C F c f. samples res = Some s
          \<and> coefficients s = A2 C \<and> offsets s = A2 F
          \<and> coefficients res = A1 c \<and> offsets res = A1 f
          \<and> length c = length (steps res) \<and> length f = length (steps res)
          \<and> length C = length (trialactivies res) \<and> length F = length (trialactivies res)
          \<and> (\<forall>k<length (steps res).
                c ! k = (\<Sum>t<length C. C ! t ! k) / real (length C)
              \<and> f ! k = (\<Sum>t<length F. F ! t ! k) / real (length F))"
proof -
  from cc_Inr_matrix [OF assms] obtain rows where
    data: "as_trials data = Inr (Array (A2 rows))" ..
  let ?sts = "[eff_minstep minstep maxstep..eff_maxstep maxstep (int (shape1 rows))]"
  let ?z = "A2 (zeros2 (length rows) (length ?sts))"
  let ?sep = "CoefficientResult ?z ?sts ?z ?z (map np_mean rows) None"
  from assms have "trialseparated lr rows ?sts ?sep = Inr res"
    by (simp add: cc_matrix [OF data] Let_def)
  from trialseparated_shape [OF this] obtain lrs where
    l: "regress_trials lr rows ?sts = Inr lrs"
    and f: "coefficients res = A1 (mean_axis0 (length ?sts) (map (map lr_slope) lrs))"
      "offsets res = A1 (mean_axis0 (length ?sts) (map (map lr_intercept) lrs))"
      "steps res = ?sts" "trialactivies res = map np_mean rows"
      "samples res = Some (CoefficientResult (A2 (map (map lr_slope) lrs)) ?sts
                           (A2 (map (map lr_intercept) lrs)) (A2 (map (map lr_stderr) lrs))
                           (map np_mean rows) None)"
    by blast
  from regress_trials_length [OF l] have n: "length lrs = length rows" by simp
  show ?thesis
    using f n by (simp add: mean_axis0_nth) (simp add: mean_axis0_def)
qed

theorem trialseparated_mean_witness:
  "\<exists>res s C F c f.
     correlation_coefficients lr_ends (Array (A2 [[1, 2, 3, 4], [1, 3, 5, 9]])) 1 1
       ''trialseparated'' True = Inr res
     \<and> samples res = Some s
     \<and> coefficients s = A2 C \<and> C = [[1], [3/2]]
     \<and> offsets s = A2 F \<and> F = [[1], [3/2]]
     \<and> coefficients res = A1 c \<and> c = [5/4]
     \<and> offsets res = A1 f \<and> f = [5/4]
     \<and> c ! 0 = (\<Sum>t<length C. C ! t ! 0) / real (length C)
     \<and> f ! 0 = (\<Sum>t<length F. F ! t ! 0) / real (length F)"
proof -
  have "\<exists>res. correlation_coefficients lr_ends (Array (A2 [[1, 2, 3, 4], [1, 3, 5, 9]])) 1 1
                ''trialseparated'' True = Inr res
          \<and> coefficients res = A1 [5/4] \<and> offsets res = A1 [5/4]
          \<and> map_option coefficients (samples res) = Some (A2 [[1], [3/2]])
          \<and> map_option offsets (samples res) = Some (A2 [[1], [3/2]])"
    by (simp add: cc_eval lr_ends_def)
  then obtain res where
    r: "correlation_coefficients lr_ends (Array (A2 [[1, 2, 3, 4], [1, 3, 5, 9]])) 1 1
          ''trialseparated'' True = Inr res"
    and v: "coefficients res = A1 [5/4]" "offsets res = A1 [5/4]"
      "map_option coefficients (samples res) = Some (A2 [[1], [3/2]])"
      "map_option offsets (samples res) = Some (A2 [[1], [3/2]])"
    by blast
  from trialseparated_mean [OF r] v r show ?thesis by auto
qed

subsection \<open>The samples of the stationary-mean method\<close>

text \<open>
  C6: under the stationary-mean method the top-level \<open>coefficients\<close> are the slopes of
  the pooled regressions, but \<open>samples\<close> does not hold the per-trial regressions: the
  loop that fills its arrays belongs to the other branch, and the three arrays of
  \<open>samples\<close> are returned as they were created, all zero. In the run below the two
  trials regress to the slopes 1 and 3/2, and \<open>samples.coefficients\<close> is
  \<open>[[0], [0]]\<close>.
\<close>

theorem stationarymean_samples_zero:
  assumes "correlation_coefficients lr data minstep maxstep ''stationarymean'' bootstrap
             = Inr res"
    and "as_trials data = Inr (Array (A2 rows))"
  shows "\<exists>s lrs. samples res = Some s
          \<and> coefficients s = A2 (replicate (length rows) (replicate (length (steps res)) 0))
          \<and> offsets s = A2 (replicate (length rows) (replicate (length (steps res)) 0))
          \<and> stderrs s = A2 (replicate (length rows) (replicate (length (steps res)) 0))
          \<and> regress_pooled lr rows (map np_mean rows) (steps res) = Inr lrs
          \<and> coefficients res = A1 (map lr_slope lrs)"
proof -
  let ?sts = "[eff_minstep minstep maxstep..eff_maxstep maxstep (int (shape1 rows))]"
  let ?z = "A2 (zeros2 (length rows) (length ?sts))"
  let ?sep = "CoefficientResult ?z ?sts ?z ?z (map np_mean rows) None"
  from assms have "stationarymean lr rows ?sts ?sep = Inr res"
    by (simp add: cc_matrix [OF assms(2)] Let_def)
  from stationarymean_shape [OF this] show ?thesis
    by (auto simp: zeros2_def)
qed

theorem stationarymean_samples_zero_witness:
  "\<exists>res s.
     correlation_coefficients lr_ends (Array (A2 [[1, 2, 3, 4], [1, 3, 5, 9]])) 1 1
       ''stationarymean'' True = Inr res
     \<and> coefficients res = A1 [5/2]
     \<and> samples res = Some s
     \<and> coefficients s = A2 [[0], [0]] \<and> offsets s = A2 [[0], [0]] \<and> stderrs s = A2 [[0], [0]]
     \<and> regress_trials lr_ends [[1, 2, 3, 4], [1, 3, 5, 9]] [1]
         = Inr [[(1, 1, 0)], [(3/2, 3/2, 0)]]"
proof -
  have "\<exists>res. correlation_coefficients lr_ends (Array (A2 [[1, 2, 3, 4], [1, 3, 5, 9]])) 1 1
                ''stationarymean'' True = Inr res
          \<and> coefficients res = A1 [5/2] \<and> steps res = [1]"
    by (simp add: cc_eval lr_ends_def)
  then obtain res where
    r: "correlation_coefficients lr_ends (Array (A2 [[1, 2, 3, 4], [1, 3, 5, 9]])) 1 1
          ''stationarymean'' True = Inr res"
    and v: "coefficients res = A1 [5/2]" "steps res = [1]"
    by blast
  have a: "as_trials (Array (A2 [[1, 2, 3, 4], [1, 3, 5, 9]]))
             = Inr (Array (A2 [[1, 2, 3, 4], [1, 3, 5, 9]]))"
    by (simp add: as_trials_def)
  have t: "regress_trials lr_ends [[1, 2, 3, 4], [1, 3, 5, 9]] [1]
             = Inr [[(1, 1, 0)], [(3/2, 3/2, 0)]]"
    by (simp add: lr_ends_def slice_stop_def slice_start_def Let_def)
  from stationarymean_samples_zero [OF r a] v r t show ?thesis by auto
qed

section \<open>Properties of correlation\_fit\<close>

lemmas fit_eval = correlation_fit_def resolve_fitfunc_def parse_data_def parse_rows_def
  in_try_def fit_grid_def default_fitpars_def fit_bounds_def default_fitbnds_def fit_row_def
  call_fitfunc_def np_sub_def sub_broadcast_def sum_squares_def keep_best_def fitfunc_doc_def
  ones_def arange_def cf_start_def cf_fails_at_zero_def f_exponential_def line_def shape1_def
  Let_def upto.simps

subsection \<open>tau and mre\<close>

text \<open>
  C7: in every result of \<open>correlation_fit\<close>, \<open>tau\<close> is the first entry of the winning
  parameter vector \<open>popt\<close>, and \<open>mre\<close> is \<open>exp (- 1 / tau)\<close>, the time step being 1.
\<close>

theorem tau_and_mre:
  assumes "correlation_fit cf data f fitpars fitbnds = Inr res"
  shows "popt res \<noteq> [] \<and> tau res = popt res ! 0 \<and> mre res = exp (- 1 / tau res)"
  using assms
  by (auto simp: correlation_fit_def Let_def
      split: sum.splits option.splits prod.splits if_splits)

theorem tau_and_mre_witness:
  "correlation_fit cf_start (FromData (Array (A1 [1, 1/2]))) Fn_exponential
     (Some (Row [2, 0])) None
     = Inr \<lparr> tau = 2, mre = exp (- 1 / 2), fitfunc = Some ''A e^(-k/tau)'',
             popt = [2, 0], pcov = [], ssres = 5/4 \<rparr>
   \<and> tau \<lparr> tau = 2, mre = exp (- 1 / 2), fitfunc = Some ''A e^(-k/tau)'',
             popt = [2, 0], pcov = [], ssres = 5/4 \<rparr>
      = popt \<lparr> tau = 2, mre = exp (- 1 / 2), fitfunc = Some ''A e^(-k/tau)'',
             popt = [2, 0], pcov = [], ssres = 5/4 \<rparr> ! 0"
proof -
  have r: "correlation_fit cf_start (FromData (Array (A1 [1, 1/2]))) Fn_exponential
     (Some (Row [2, 0])) None
     = Inr \<lparr> tau = 2, mre = exp (- 1 / 2), fitfunc = Some ''A e^(-k/tau)'',
             popt = [2, 0], pcov = [], ssres = 5/4 \<rparr>"
    by (simp add: fit_eval power2_eq_square)
  from tau_and_mre [OF r] r show ?thesis by simp
qed

subsection \<open>A two-dimensional input of three or more rows\<close>

text \<open>
  C4: for an array of three or more rows (and at least as many columns, so that it is
  not transposed) the third row should become the standard errors. The branch sets
  \<open>stderrs\<close> to ones, and its last line compares \<^verbatim>\<open>data.shape\<close> with 3: the
  \<open>TypeError\<close> reaches the handler, which raises \<open>AttributeError\<close>. No such input is
  ever fitted.
\<close>

theorem three_rows_raise:
  assumes "3 \<le> length rows" and "length rows \<le> shape1 rows"
  shows "correlation_fit cf (FromData (Array (A2 rows))) f fitpars fitbnds
           = Inl AttributeError"
  using assms
  by (auto simp: correlation_fit_def parse_data_def parse_rows_def in_try_def Let_def
      split: sum.splits)

theorem three_rows_raise_witness:
  "correlation_fit cf_start
     (FromData (Array (A2 [[1, 2, 3], [1/2, 1/4, 1/8], [1/10, 1/10, 1/10]])))
     Fn_exponential None None = Inl AttributeError"
proof -
  have a: "3 \<le> length [[1, 2, 3], [1/2, 1/4, 1/8], [1/10, 1/10, 1/10 :: real]]"
    and b: "length [[1, 2, 3], [1/2, 1/4, 1/8], [1/10, 1/10, 1/10 :: real]]
          \<le> shape1 [[1, 2, 3], [1/2, 1/4, 1/8], [1/10, 1/10, 1/10 :: real]]"
    by (simp_all add: shape1_def)
  from three_rows_raise [OF a b] show ?thesis .
qed

subsection \<open>A starting row whose optimisation fails\<close>

text \<open>
  C5, as stated: a row whose optimisation fails contributes no candidate and the best of
  the other rows is returned. Nothing in the loop catches the exception of
  \<^verbatim>\<open>curve_fit\<close>: with two rows, of which the first fails and the second alone would
  give a candidate, the call ends in the \<open>RuntimeError\<close> of the first.
\<close>

theorem failed_row_counterexample:
  "fit_row cf_fails_at_zero Fn_exponential [1, 2] (A1 [1, 1/2]) (A1 [1, 1]) None [2, 0]
     = Inr (5/4, [2, 0], [])
   \<and> correlation_fit cf_fails_at_zero (FromData (Array (A1 [1, 1/2]))) Fn_exponential
       (Some (Grid [[0, 0], [2, 0]])) None = Inl RuntimeError"
  by (simp add: fit_eval power2_eq_square)

lemma fit_loop_first_failure:
  assumes "i < length rows"
    and "fit_row cf f sts coefs errs bnds (rows ! i) = Inl e"
    and "\<forall>j<i. \<exists>c. fit_row cf f sts coefs errs bnds (rows ! j) = Inr c"
  shows "fit_loop cf f sts coefs errs bnds rows best = Inl e"
  using assms
proof (induction rows arbitrary: i best)
  case Nil
  then show ?case by simp
next
  case (Cons pars rest)
  show ?case
  proof (cases i)
    case 0
    with Cons.prems show ?thesis by simp
  next
    case (Suc k)
    with Cons.prems(3) obtain c where c: "fit_row cf f sts coefs errs bnds pars = Inr c"
      by fastforce
    have "k < length rest" using Cons.prems(1) Suc by simp
    moreover have "fit_row cf f sts coefs errs bnds (rest ! k) = Inl e"
      using Cons.prems(2) Suc by simp
    moreover have "\<forall>j<k. \<exists>c. fit_row cf f sts coefs errs bnds (rest ! j) = Inr c"
      using Cons.prems(3) Suc by fastforce
    ultimately have "fit_loop cf f sts coefs errs bnds rest (keep_best best c) = Inl e"
      by (rule Cons.IH)
    with c show ?thesis by simp
  qed
qed

text \<open>
  C5, amended: the first row whose pass raises ends the whole call with that exception;
  the rows after it are not attempted, and no result is returned.
\<close>

theorem failed_row_aborts:
  assumes "parse_data data = Inr (Some (sts, coefs, errs))"
    and "fit_grid (resolve_fitfunc f) fitpars = Inr rows"
    and "i < length rows"
    and "fit_row cf (resolve_fitfunc f) sts coefs errs
           (fit_bounds (resolve_fitfunc f) fitbnds) (rows ! i) = Inl e"
    and "\<forall>j<i. \<exists>c. fit_row cf (resolve_fitfunc f) sts coefs errs
           (fit_bounds (resolve_fitfunc f) fitbnds) (rows ! j) = Inr c"
  shows "correlation_fit cf data f fitpars fitbnds = Inl e"
  using fit_loop_first_failure [OF assms(3,4,5), of None] assms(1,2)
  by (simp add: correlation_fit_def Let_def)

theorem failed_row_aborts_witness:
  "correlation_fit cf_fails_at_zero (FromData (Array (A1 [1, 1/2]))) Fn_exponential
     (Some (Grid [[2, 0], [0, 0], [3, 0]])) None = Inl RuntimeError"
proof -
  have p: "parse_data (FromData (Array (A1 [1, 1/2]))) = Inr (Some ([1, 2], A1 [1, 1/2], A1 [1, 1]))"
    by (simp add: fit_eval)
  have g: "fit_grid (resolve_fitfunc Fn_exponential) (Some (Grid [[2, 0], [0, 0], [3, 0]]))
             = Inr [[2, 0], [0, 0], [3, 0]]"
    by (simp add: fit_eval)
  have i: "1 < length [[2, 0], [0, 0], [3, 0 :: real]]" by simp
  have e: "fit_row cf_fails_at_zero (resolve_fitfunc Fn_exponential) [1, 2] (A1 [1, 1/2])
             (A1 [1, 1]) (fit_bounds (resolve_fitfunc Fn_exponential) None)
             ([[2, 0], [0, 0], [3, 0]] ! 1) = Inl RuntimeError"
    by (simp add: fit_eval)
  have b: "\<forall>j<1. \<exists>c. fit_row cf_fails_at_zero (resolve_fitfunc Fn_exponential) [1, 2]
             (A1 [1, 1/2]) (A1 [1, 1]) (fit_bounds (resolve_fitfunc Fn_exponential) None)
             ([[2, 0], [0, 0], [3, 0]] ! j) = Inr c"
    by (simp add: fit_eval)
  from failed_row_aborts [OF p g i e b] show ?thesis .
qed

subsection \<open>The best of the starting rows\<close>

lemma fit_loop_all_ok:
  "map (fit_row cf f sts coefs errs bnds) rows = map Inr cands \<Longrightarrow>
   fit_loop cf f sts coefs errs bnds rows best = Inr (foldl keep_best best cands)"
proof (induction rows arbitrary: cands best)
  case Nil
  then show ?case by simp
next
  case (Cons pars rest)
  then obtain c cs where cs: "cands = c # cs" by (cases cands) auto
  with Cons.prems have "fit_row cf f sts coefs errs bnds pars = Inr c"
    and "map (fit_row cf f sts coefs errs bnds) rest = map Inr cs" by simp_all
  with Cons.IH cs show ?case by simp
qed

lemma foldl_keep_best_first_min:
  "cands \<noteq> [] \<Longrightarrow>
   \<exists>i<length cands. foldl keep_best None cands = Some (cands ! i)
      \<and> (\<forall>j<length cands. fst (cands ! i) \<le> fst (cands ! j))
      \<and> (\<forall>j<i. fst (cands ! i) < fst (cands ! j))"
proof (induction cands rule: rev_induct)
  case Nil
  then show ?case by simp
next
  case (snoc c cs)
  show ?case
  proof (cases "cs = []")
    case True
    then show ?thesis by (simp add: keep_best_def)
  next
    case False
    with snoc.IH obtain i where i: "i < length cs"
      and f: "foldl keep_best None cs = Some (cs ! i)"
      and le: "\<forall>j<length cs. fst (cs ! i) \<le> fst (cs ! j)"
      and lt: "\<forall>j<i. fst (cs ! i) < fst (cs ! j)"
      by blast
    show ?thesis
    proof (cases "fst c < fst (cs ! i)")
      case True
      have "foldl keep_best None (cs @ [c]) = Some ((cs @ [c]) ! length cs)"
        using f True by (simp add: keep_best_def)
      moreover have "\<forall>j<length (cs @ [c]). fst ((cs @ [c]) ! length cs) \<le> fst ((cs @ [c]) ! j)"
        using le True by (auto simp: nth_append less_Suc_eq intro: less_imp_le order.trans)
      moreover have "\<forall>j<length cs. fst ((cs @ [c]) ! length cs) < fst ((cs @ [c]) ! j)"
        using le True by (auto simp: nth_append intro: less_le_trans)
      ultimately show ?thesis
        by (intro exI [of _ "length cs"]) simp
    next
      case False
      have "foldl keep_best None (cs @ [c]) = Some ((cs @ [c]) ! i)"
        using f False i by (simp add: keep_best_def nth_append)
      moreover have "\<forall>j<length (cs @ [c]). fst ((cs @ [c]) ! i) \<le> fst ((cs @ [c]) ! j)"
        using le False i by (auto simp: nth_append less_Suc_eq)
      moreover have "\<forall>j<i. fst ((cs @ [c]) ! i) < fst ((cs @ [c]) ! j)"
        using lt i by (auto simp: nth_append)
      ultimately show ?thesis using i
        by (intro exI [of _ i]) simp
    qed
  qed
qed

lemma fit_row_ssres:
  assumes "fit_row cf f sts coefs errs bnds pars = Inr (ss, po, pc)"
  shows "\<exists>pred residuals. cf f sts coefs pars bnds errs = Inr (po, pc)
          \<and> call_fitfunc f sts po = Inr pred
          \<and> np_sub coefs pred = Inr residuals
          \<and> ss = sum_squares residuals"
  using assms by (auto simp: fit_row_def split: fitfunc.splits sum.splits prod.splits)

text \<open>
  C1: when the grid has at least one row and the pass of every row succeeds, row \<open>j\<close>
  giving the candidate \<open>cands ! j\<close> (its residual sum of squares, optimal parameters and
  covariance), the call returns a result. Its \<open>ssres\<close> is the least residual sum of
  squares of all rows, the sum of the squared differences between the coefficients and
  the fit function at \<open>popt\<close>; \<open>popt\<close> and \<open>pcov\<close> are what \<^verbatim>\<open>curve_fit\<close> returned for
  a row \<open>i\<close> with that least value, and every row before \<open>i\<close> has a strictly larger
  one: among equal rows the first wins.
\<close>

theorem best_row_wins:
  assumes parse: "parse_data data = Inr (Some (sts, coefs, errs))"
    and grid: "fit_grid (resolve_fitfunc f) fitpars = Inr rows"
    and ne: "rows \<noteq> []"
    and ok: "map (fit_row cf (resolve_fitfunc f) sts coefs errs
                    (fit_bounds (resolve_fitfunc f) fitbnds)) rows = map Inr cands"
    and po: "\<forall>c\<in>set cands. fst (snd c) \<noteq> []"
  shows "\<exists>res i pred residuals.
            correlation_fit cf data f fitpars fitbnds = Inr res
          \<and> i < length rows
          \<and> cands ! i = (ssres res, popt res, pcov res)
          \<and> cf (resolve_fitfunc f) sts coefs (rows ! i)
               (fit_bounds (resolve_fitfunc f) fitbnds) errs = Inr (popt res, pcov res)
          \<and> call_fitfunc (resolve_fitfunc f) sts (popt res) = Inr pred
          \<and> np_sub coefs pred = Inr residuals
          \<and> ssres res = sum_squares residuals
          \<and> ssres res = Min (fst ` set cands)
          \<and> (\<forall>j<i. ssres res < fst (cands ! j))"
proof -
  let ?f = "resolve_fitfunc f"
  let ?b = "fit_bounds ?f fitbnds"
  from ok have len: "length rows = length cands"
    by (metis length_map)
  with ne have cne: "cands \<noteq> []" by auto
  from foldl_keep_best_first_min [OF cne] obtain i where i: "i < length cands"
    and best: "foldl keep_best None cands = Some (cands ! i)"
    and le: "\<forall>j<length cands. fst (cands ! i) \<le> fst (cands ! j)"
    and lt: "\<forall>j<i. fst (cands ! i) < fst (cands ! j)"
    by blast
  obtain ss p c where ci: "cands ! i = (ss, p, c)" by (cases "cands ! i")
  have mem: "cands ! i \<in> set cands" using i by simp
  with po ci have pne: "p \<noteq> []" by fastforce
  have loop: "fit_loop cf ?f sts coefs errs ?b rows None = Inr (Some (ss, p, c))"
    using fit_loop_all_ok [OF ok, of None] best ci by simp
  let ?res = "\<lparr> tau = p ! 0, mre = exp (- 1 / (p ! 0)), fitfunc = fitfunc_doc ?f,
                 popt = p, pcov = c, ssres = ss \<rparr>"
  have res: "correlation_fit cf data f fitpars fitbnds = Inr ?res"
    using parse grid loop pne by (simp add: correlation_fit_def Let_def)
  have "map (fit_row cf ?f sts coefs errs ?b) rows ! i = map Inr cands ! i"
    using ok by simp
  then have "fit_row cf ?f sts coefs errs ?b (rows ! i) = Inr (ss, p, c)"
    using i len ci by simp
  from fit_row_ssres [OF this] obtain pred residuals where
    r: "cf ?f sts coefs (rows ! i) ?b errs = Inr (p, c)"
      "call_fitfunc ?f sts p = Inr pred" "np_sub coefs pred = Inr residuals"
      "ss = sum_squares residuals"
    by blast
  have "Min (fst ` set cands) = fst (cands ! i)"
  proof (rule Min_eqI)
    show "finite (fst ` set cands)" by simp
    show "fst (cands ! i) \<in> fst ` set cands" using mem by (rule imageI)
    fix y assume "y \<in> fst ` set cands"
    then obtain j where "j < length cands" "y = fst (cands ! j)"
      by (auto simp: in_set_conv_nth)
    with le show "fst (cands ! i) \<le> y" by simp
  qed
  then have mn: "ss = Min (fst ` set cands)" using ci by simp
  have "\<forall>j<i. ss < fst (cands ! j)" using lt ci by simp
  with res i len ci r mn show ?thesis
    by (intro exI [of _ ?res] exI [of _ i] exI [of _ pred] exI [of _ residuals]) simp
qed

theorem best_row_wins_witness:
  "\<exists>res i.
     correlation_fit cf_start (FromData (Array (A1 [1, 1/2]))) (Fn_custom None line)
       (Some (Grid [[2], [1/5], [3/5]])) None = Inr res
     \<and> popt res = [1/5] \<and> ssres res = 13/20
     \<and> i < length [[2], [1/5], [3/5 :: real]]
     \<and> [(53/4, [2], []), (13/20, [1/5], []), (13/20, [3/5], [])] ! i
         = (ssres res, popt res, pcov res)
     \<and> ssres res = Min (fst ` set [(53/4, [2], []), (13/20, [1/5], []), (13/20, [3/5 :: real], [] :: real list list)])"
proof -
  have p: "parse_data (FromData (Array (A1 [1, 1/2])))
             = Inr (Some ([1, 2], A1 [1, 1/2], A1 [1, 1]))"
    by (simp add: fit_eval)
  have g: "fit_grid (resolve_fitfunc (Fn_custom None line)) (Some (Grid [[2], [1/5], [3/5]]))
             = Inr [[2], [1/5], [3/5]]"
    by (simp add: fit_eval)
  have ne: "[[2], [1/5], [3/5 :: real]] \<noteq> []" by simp
  have m: "map (fit_row cf_start (resolve_fitfunc (Fn_custom None line)) [1, 2] (A1 [1, 1/2])
                  (A1 [1, 1]) (fit_bounds (resolve_fitfunc (Fn_custom None line)) None))
             [[2], [1/5], [3/5]]
           = map Inr [(53/4, [2], []), (13/20, [1/5], []), (13/20, [3/5], [])]"
    by (simp add: fit_eval power2_eq_square)
  have nz: "\<forall>c\<in>set [(53/4, [2], []), (13/20, [1/5], []), (13/20, [3/5 :: real], [] :: real list list)].
              fst (snd c) \<noteq> []"
    by simp
  have r: "correlation_fit cf_start (FromData (Array (A1 [1, 1/2]))) (Fn_custom None line)
             (Some (Grid [[2], [1/5], [3/5]])) None
           = Inr \<lparr> tau = 1/5, mre = exp (- 5), fitfunc = None, popt = [1/5], pcov = [],
                   ssres = 13/20 \<rparr>"
    by (simp add: fit_eval power2_eq_square)
  from best_row_wins [OF p g ne m nz] r show ?thesis by auto
qed

end
